theory Spec2Isabelle
  imports Main "HOL-Library.Word" "HOL-Library.Char_ord"
begin

section \<open>The Jellyfin API client (package client)\<close>

subsection \<open>Constants and data\<close>

definition DefaultClientName :: string where
  "DefaultClientName = ''Terraform''"

definition DefaultDeviceName :: string where
  "DefaultDeviceName = ''Terraform Provider''"

definition DefaultDeviceID :: string where
  "DefaultDeviceID = ''terraform-provider-jellyfin''"

definition DefaultClientVersion :: string where
  "DefaultClientVersion = ''1.0.0''"

text \<open>
  The struct \<open>Client\<close>. Its third field \<open>httpClient\<close> is \<open>http.DefaultClient\<close> in
  every constructor; the transport is the \<open>http_Do\<close> component of the environment below.
\<close>

record Client =
  endpoint :: string
  accessToken :: string

record ClientConfig =
  Endpoint :: string
  ClientName :: string
  DeviceName :: string
  DeviceID :: string
  ClientVersion :: string

record AuthenticateRequest =
  Username :: string
  Pw :: string

text \<open>
  \<open>AuthenticateResponse\<close>: the field \<open>AccessToken\<close> is written \<open>AuthAccessToken\<close> here,
  since \<open>APIKey\<close> has a field of the same name; the nested structs \<open>User\<close> and
  \<open>SessionInfo\<close> are flattened.
\<close>

record AuthenticateResponse =
  AuthAccessToken :: string
  ServerId :: string
  UserId :: string
  UserName :: string
  SessionInfoId :: string

text \<open>
  \<open>APIKey\<close>. The resource layer (\<open>api_key_resource.go\<close>) reads a field \<open>key.Id\<close> and
  keeps it as the key of a \<open>map[int64]bool\<close>; the struct declaration in the client
  source has the three string fields only. The record takes the missing field as a
  64-bit word, written \<open>Id'\<close>; no client function reads it.
\<close>

record APIKey =
  Id' :: "64 word"
  AccessToken :: string
  AppName :: string
  DateCreated :: string

record APIKeyQueryResult =
  Items :: "APIKey list"
  TotalRecordCount :: int
  StartIndex :: int

subsection \<open>HTTP requests, responses and the environment\<close>

datatype http_method = MethodGet | MethodPost | MethodDelete

record http_request =
  Method :: http_method
  URL :: string
  Authorization :: string
  ContentType :: "string option"
  ReqBody :: "string option"

text \<open>\<open>Body\<close> is what \<open>io.ReadAll(resp.Body)\<close> yields (its error is discarded by the source).\<close>

record http_response =
  StatusCode :: int
  Body :: string

text \<open>A Go \<open>error\<close> is modelled by its message, the string \<open>err.Error()\<close>.\<close>

type_synonym error = string

text \<open>
  What the client takes from the standard library and from the network:
  \<^item> \<open>json_Marshal\<close>: \<open>json.Marshal\<close> on an \<open>AuthenticateRequest\<close>;
  \<^item> \<open>http_NewRequest\<close>: the validation done by \<open>http.NewRequestWithContext\<close> on the
    method and the URL string (\<open>Some err\<close> when it refuses them);
  \<^item> \<open>http_Do\<close>: one round-trip, \<open>Client.Do\<close>, against a server in state \<open>'s\<close>:
    a transport error or a response, and the server's next state;
  \<^item> the two JSON decoders of \<open>json.NewDecoder(resp.Body).Decode\<close>.
\<close>

record 's env =
  json_Marshal :: "AuthenticateRequest \<Rightarrow> error + string"
  http_NewRequest :: "http_method \<Rightarrow> string \<Rightarrow> error option"
  http_Do :: "http_request \<Rightarrow> 's \<Rightarrow> (error + http_response) \<times> 's"
  decode_AuthenticateResponse :: "string \<Rightarrow> error + AuthenticateResponse"
  decode_APIKeyQueryResult :: "string \<Rightarrow> error + APIKeyQueryResult"

text \<open>The network: the server's state and the requests sent so far, oldest first.\<close>

record 's net =
  server :: 's
  sent :: "http_request list"

definition Do :: "'s env \<Rightarrow> http_request \<Rightarrow> 's net \<Rightarrow> (error + http_response) \<times> 's net" where
  "Do env req n =
     (case http_Do env req (server n) of
        (r, s') \<Rightarrow> (r, \<lparr>server = s', sent = sent n @ [req]\<rparr>))"

subsection \<open>Formatting\<close>

text \<open>The verb \<open>%d\<close> of \<open>fmt\<close> on an \<open>int\<close>: decimal digits, a minus sign when negative.\<close>

fun digits :: "nat \<Rightarrow> string" where
  "digits n =
     (if n < 10 then [''0123456789'' ! n]
      else digits (n div 10) @ [''0123456789'' ! (n mod 10)])"

definition fmt_d :: "int \<Rightarrow> string" where
  "fmt_d i = (if i < 0 then CHR ''-'' # digits (nat (- i)) else digits (nat i))"

text \<open>The number a string of decimal digits denotes, to state what \<open>digits\<close> renders.\<close>

definition decimal_value :: "string \<Rightarrow> nat" where
  "decimal_value s = foldl (\<lambda>a ch. 10 * a + (of_char ch - 48)) 0 s"

text \<open>\<open>strings.HasSuffix\<close> and \<open>strings.TrimSuffix\<close>.\<close>

definition HasSuffix :: "string \<Rightarrow> string \<Rightarrow> bool" where
  "HasSuffix s suffix =
     (length s \<ge> length suffix \<and> drop (length s - length suffix) s = suffix)"

definition TrimSuffix :: "string \<Rightarrow> string \<Rightarrow> string" where
  "TrimSuffix s suffix =
     (if HasSuffix s suffix then take (length s - length suffix) s else s)"

subsection \<open>Construction\<close>

definition NewClient :: "string \<Rightarrow> string \<Rightarrow> Client" where
  "NewClient endpoint' accessToken' =
     \<lparr>endpoint = TrimSuffix endpoint' ''/'', accessToken = accessToken'\<rparr>"

text \<open>
  The four identification values of \<open>NewClientWithAuthAndConfig\<close>: each starts at its
  default and is replaced when \<open>config != nil\<close> and the field is not the empty string.
\<close>

definition clientName_of :: "ClientConfig option \<Rightarrow> string" where
  "clientName_of config =
     (case config of None \<Rightarrow> DefaultClientName
      | Some cfg \<Rightarrow> if ClientName cfg \<noteq> [] then ClientName cfg else DefaultClientName)"

definition deviceName_of :: "ClientConfig option \<Rightarrow> string" where
  "deviceName_of config =
     (case config of None \<Rightarrow> DefaultDeviceName
      | Some cfg \<Rightarrow> if DeviceName cfg \<noteq> [] then DeviceName cfg else DefaultDeviceName)"

definition deviceID_of :: "ClientConfig option \<Rightarrow> string" where
  "deviceID_of config =
     (case config of None \<Rightarrow> DefaultDeviceID
      | Some cfg \<Rightarrow> if DeviceID cfg \<noteq> [] then DeviceID cfg else DefaultDeviceID)"

definition clientVersion_of :: "ClientConfig option \<Rightarrow> string" where
  "clientVersion_of config =
     (case config of None \<Rightarrow> DefaultClientVersion
      | Some cfg \<Rightarrow> if ClientVersion cfg \<noteq> [] then ClientVersion cfg else DefaultClientVersion)"

text \<open>
  The header of the unauthenticated request,
  \<^verbatim>\<open>MediaBrowser Client="%s", Device="%s", DeviceId="%s", Version="%s"\<close>.
\<close>

definition auth_header :: "string \<Rightarrow> string \<Rightarrow> string \<Rightarrow> string \<Rightarrow> string" where
  "auth_header clientName deviceName deviceID clientVersion =
     ''MediaBrowser Client=\"'' @ clientName @ ''\", Device=\"'' @ deviceName @
     ''\", DeviceId=\"'' @ deviceID @ ''\", Version=\"'' @ clientVersion @ ''\"''"

definition NewClientWithAuthAndConfig ::
  "'s env \<Rightarrow> string \<Rightarrow> string \<Rightarrow> string \<Rightarrow> ClientConfig option \<Rightarrow> 's net
     \<Rightarrow> (error + Client) \<times> 's net" where
  "NewClientWithAuthAndConfig env endpoint0 username password config n =
     (let endpoint' = TrimSuffix endpoint0 ''/'';
          clientName = clientName_of config;
          deviceName = deviceName_of config;
          deviceID = deviceID_of config;
          clientVersion = clientVersion_of config;
          authReq = \<lparr>Username = username, Pw = password\<rparr>
      in case json_Marshal env authReq of
           Inl err \<Rightarrow> (Inl (''failed to marshal auth request: '' @ err), n)
         | Inr body \<Rightarrow>
             (case http_NewRequest env MethodPost (endpoint' @ ''/Users/AuthenticateByName'') of
                Some err \<Rightarrow> (Inl (''failed to create auth request: '' @ err), n)
              | None \<Rightarrow>
                  (case Do env
                          \<lparr>Method = MethodPost,
                           URL = endpoint' @ ''/Users/AuthenticateByName'',
                           Authorization = auth_header clientName deviceName deviceID clientVersion,
                           ContentType = Some ''application/json'',
                           ReqBody = Some body\<rparr> n of
                     (Inl err, n') \<Rightarrow> (Inl (''failed to authenticate: '' @ err), n')
                   | (Inr resp, n') \<Rightarrow>
                       if StatusCode resp \<noteq> 200
                       then (Inl (''authentication failed with status '' @ fmt_d (StatusCode resp)
                                  @ '': '' @ Body resp), n')
                       else (case decode_AuthenticateResponse env (Body resp) of
                               Inl err \<Rightarrow> (Inl (''failed to decode auth response: '' @ err), n')
                             | Inr authResp \<Rightarrow>
                                 if AuthAccessToken authResp = []
                                 then (Inl ''authentication succeeded but no access token returned'', n')
                                 else (Inr \<lparr>endpoint = endpoint',
                                           accessToken = AuthAccessToken authResp\<rparr>, n')))))"

definition NewClientWithAuth ::
  "'s env \<Rightarrow> string \<Rightarrow> string \<Rightarrow> string \<Rightarrow> 's net \<Rightarrow> (error + Client) \<times> 's net" where
  "NewClientWithAuth env endpoint0 username password n =
     NewClientWithAuthAndConfig env endpoint0 username password None n"

subsection \<open>Authorized requests\<close>

definition token_header :: "string \<Rightarrow> string" where
  "token_header tok = ''MediaBrowser Token=\"'' @ tok @ ''\"''"

definition authorized_request :: "Client \<Rightarrow> http_method \<Rightarrow> string \<Rightarrow> http_request" where
  "authorized_request c method path =
     \<lparr>Method = method, URL = endpoint c @ path,
      Authorization = token_header (accessToken c),
      ContentType = None, ReqBody = None\<rparr>"

definition doRequest ::
  "'s env \<Rightarrow> Client \<Rightarrow> http_method \<Rightarrow> string \<Rightarrow> 's net \<Rightarrow> (error + http_response) \<times> 's net" where
  "doRequest env c method path n =
     (case http_NewRequest env method (endpoint c @ path) of
        Some err \<Rightarrow> (Inl (''failed to create request: '' @ err), n)
      | None \<Rightarrow>
          (case Do env (authorized_request c method path) n of
             (Inl err, n') \<Rightarrow> (Inl (''failed to execute request: '' @ err), n')
           | (Inr resp, n') \<Rightarrow> (Inr resp, n')))"

definition status_error :: "http_response \<Rightarrow> error" where
  "status_error resp =
     ''API request failed with status '' @ fmt_d (StatusCode resp) @ '': '' @ Body resp"

definition GetKeys :: "'s env \<Rightarrow> Client \<Rightarrow> 's net \<Rightarrow> (error + APIKeyQueryResult) \<times> 's net" where
  "GetKeys env c n =
     (case doRequest env c MethodGet ''/Auth/Keys'' n of
        (Inl err, n') \<Rightarrow> (Inl err, n')
      | (Inr resp, n') \<Rightarrow>
          if StatusCode resp \<noteq> 200 then (Inl (status_error resp), n')
          else (case decode_APIKeyQueryResult env (Body resp) of
                  Inl err \<Rightarrow> (Inl (''failed to decode response: '' @ err), n')
                | Inr result \<Rightarrow> (Inr result, n')))"

text \<open>The loop of \<open>GetKey\<close>: \<open>for _, key := range result.Items\<close>, returning at the first match.\<close>

fun GetKey_scan :: "APIKey list \<Rightarrow> string \<Rightarrow> APIKey option" where
  "GetKey_scan [] tok = None"
| "GetKey_scan (key # rest) tok =
     (if AccessToken key = tok then Some key else GetKey_scan rest tok)"

definition GetKey ::
  "'s env \<Rightarrow> Client \<Rightarrow> string \<Rightarrow> 's net \<Rightarrow> (error + APIKey option) \<times> 's net" where
  "GetKey env c tok n =
     (case GetKeys env c n of
        (Inl err, n') \<Rightarrow> (Inl err, n')
      | (Inr result, n') \<Rightarrow> (Inr (GetKey_scan (Items result) tok), n'))"

fun FindKeyByAppName_scan :: "APIKey list \<Rightarrow> string \<Rightarrow> APIKey option" where
  "FindKeyByAppName_scan [] appName = None"
| "FindKeyByAppName_scan (key # rest) appName =
     (if AppName key = appName then Some key else FindKeyByAppName_scan rest appName)"

definition FindKeyByAppName ::
  "'s env \<Rightarrow> Client \<Rightarrow> string \<Rightarrow> 's net \<Rightarrow> (error + APIKey option) \<times> 's net" where
  "FindKeyByAppName env c appName n =
     (case GetKeys env c n of
        (Inl err, n') \<Rightarrow> (Inl err, n')
      | (Inr result, n') \<Rightarrow> (Inr (FindKeyByAppName_scan (Items result) appName), n'))"

subsection \<open>Percent-encoding (net/url of the Go standard library)\<close>

text \<open>
  \<open>CreateKey\<close> and \<open>DeleteKey\<close> call \<open>url.QueryEscape\<close> and \<open>url.PathEscape\<close>. Both are
  \<open>escape(s, mode)\<close> of \<open>net/url\<close>, over the bytes of the string, with the modes
  \<open>encodeQueryComponent\<close> and \<open>encodePathSegment\<close>; \<open>url.QueryUnescape\<close> and
  \<open>url.PathUnescape\<close> are \<open>unescape(s, mode)\<close>. Only these two modes are embedded.
\<close>

datatype encoding = encodePathSegment | encodeQueryComponent

definition shouldEscape :: "char \<Rightarrow> encoding \<Rightarrow> bool" where
  "shouldEscape c mode =
     (if (CHR ''a'' \<le> c \<and> c \<le> CHR ''z'') \<or> (CHR ''A'' \<le> c \<and> c \<le> CHR ''Z'')
          \<or> (CHR ''0'' \<le> c \<and> c \<le> CHR ''9'')
      then False
      else if c \<in> set ''-_.~'' then False
      else if c \<in> set ''$&+,/:;=?@''
      then (case mode of
              encodePathSegment \<Rightarrow> c = CHR ''/'' \<or> c = CHR '';'' \<or> c = CHR '','' \<or> c = CHR ''?''
            | encodeQueryComponent \<Rightarrow> True)
      else True)"

definition upperhex :: string where
  "upperhex = ''0123456789ABCDEF''"

text \<open>The second loop of \<open>escape\<close>: one output piece per input byte.\<close>

definition escape_byte :: "encoding \<Rightarrow> char \<Rightarrow> string" where
  "escape_byte mode c =
     (if c = CHR '' '' \<and> mode = encodeQueryComponent then ''+''
      else if shouldEscape c mode
      then [CHR ''%'', upperhex ! (of_char c div 16), upperhex ! (of_char c mod 16)]
      else [c])"

fun escape :: "encoding \<Rightarrow> string \<Rightarrow> string" where
  "escape mode [] = []"
| "escape mode (c # s) = escape_byte mode c @ escape mode s"

definition QueryEscape :: "string \<Rightarrow> string" where
  "QueryEscape s = escape encodeQueryComponent s"

definition PathEscape :: "string \<Rightarrow> string" where
  "PathEscape s = escape encodePathSegment s"

definition ishex :: "char \<Rightarrow> bool" where
  "ishex c =
     ((CHR ''0'' \<le> c \<and> c \<le> CHR ''9'') \<or> (CHR ''a'' \<le> c \<and> c \<le> CHR ''f'')
      \<or> (CHR ''A'' \<le> c \<and> c \<le> CHR ''F''))"

definition unhex :: "char \<Rightarrow> nat" where
  "unhex c =
     (if CHR ''0'' \<le> c \<and> c \<le> CHR ''9'' then of_char c - of_char CHR ''0''
      else if CHR ''a'' \<le> c \<and> c \<le> CHR ''f'' then of_char c - of_char CHR ''a'' + 10
      else if CHR ''A'' \<le> c \<and> c \<le> CHR ''F'' then of_char c - of_char CHR ''A'' + 10
      else 0)"

text \<open>
  \<open>unescape\<close>: an \<open>EscapeError\<close> (here \<open>None\<close>) when a \<open>%\<close> is not followed by two
  hexadecimal digits; otherwise \<open>%XX\<close> becomes the byte, and \<open>+\<close> a space in query mode.
  The source validates in a first pass and builds in a second; the model does both in one.
\<close>

fun unescape :: "encoding \<Rightarrow> string \<Rightarrow> string option" where
  "unescape mode [] = Some []"
| "unescape mode (c # s) =
     (if c = CHR ''%''
      then (case s of
              h1 # h2 # rest \<Rightarrow>
                if ishex h1 \<and> ishex h2
                then map_option ((#) (char_of (unhex h1 * 16 + unhex h2))) (unescape mode rest)
                else None
            | _ \<Rightarrow> None)
      else if c = CHR ''+'' \<and> mode = encodeQueryComponent
      then map_option ((#) CHR '' '') (unescape mode s)
      else map_option ((#) c) (unescape mode s))"

definition QueryUnescape :: "string \<Rightarrow> string option" where
  "QueryUnescape s = unescape encodeQueryComponent s"

definition PathUnescape :: "string \<Rightarrow> string option" where
  "PathUnescape s = unescape encodePathSegment s"

subsection \<open>Creating and deleting a key\<close>

definition CreateKey :: "'s env \<Rightarrow> Client \<Rightarrow> string \<Rightarrow> 's net \<Rightarrow> error option \<times> 's net" where
  "CreateKey env c appName n =
     (let path = ''/Auth/Keys?app='' @ QueryEscape appName
      in case doRequest env c MethodPost path n of
           (Inl err, n') \<Rightarrow> (Some err, n')
         | (Inr resp, n') \<Rightarrow>
             if StatusCode resp \<noteq> 204 \<and> StatusCode resp \<noteq> 200
             then (Some (status_error resp), n')
             else (None, n'))"

definition DeleteKey :: "'s env \<Rightarrow> Client \<Rightarrow> string \<Rightarrow> 's net \<Rightarrow> error option \<times> 's net" where
  "DeleteKey env c tok n =
     (let path = ''/Auth/Keys/'' @ PathEscape tok
      in case doRequest env c MethodDelete path n of
           (Inl err, n') \<Rightarrow> (Some err, n')
         | (Inr resp, n') \<Rightarrow>
             if StatusCode resp \<noteq> 204 \<and> StatusCode resp \<noteq> 200
             then (Some (status_error resp), n')
             else (None, n'))"

section \<open>The resource and the data source (package provider)\<close>

subsection \<open>Framework values\<close>

text \<open>\<open>types.String\<close>: null, unknown, or a known value; \<open>ValueString\<close> is empty on the first two.\<close>

datatype types_String = Null | Unknown | StringValue string

definition IsNull :: "types_String \<Rightarrow> bool" where
  "IsNull v = (v = Null)"

definition IsUnknown :: "types_String \<Rightarrow> bool" where
  "IsUnknown v = (v = Unknown)"

definition ValueString :: "types_String \<Rightarrow> string" where
  "ValueString v = (case v of StringValue s \<Rightarrow> s | _ \<Rightarrow> [])"

datatype severity = SeverityError | SeverityWarning

record diagnostic =
  Severity :: severity
  Summary :: string
  Detail :: string

text \<open>\<open>Diagnostics.Append\<close> skips a diagnostic the list already contains.\<close>

fun Append :: "diagnostic list \<Rightarrow> diagnostic list \<Rightarrow> diagnostic list" where
  "Append ds [] = ds"
| "Append ds (d # rest) = Append (if d \<in> set ds then ds else ds @ [d]) rest"

definition AddError :: "diagnostic list \<Rightarrow> string \<Rightarrow> string \<Rightarrow> diagnostic list" where
  "AddError ds summary detail =
     Append ds [\<lparr>Severity = SeverityError, Summary = summary, Detail = detail\<rparr>]"

definition HasError :: "diagnostic list \<Rightarrow> bool" where
  "HasError ds = list_ex (\<lambda>d. Severity d = SeverityError) ds"

text \<open>
  \<open>APIKeyResourceModel\<close> and \<open>APIKeyDataSourceModel\<close> have the same four fields; one
  record stands for both, its fields prefixed since \<open>APIKey\<close> owns the plain names.
\<close>

record APIKeyModel =
  m_ID :: types_String
  m_AppName :: types_String
  m_AccessToken :: types_String
  m_DateCreated :: types_String

text \<open>
  A response of the framework (\<open>CreateResponse\<close>, \<open>ReadResponse\<close>, \<open>DeleteResponse\<close>,
  the data source's \<open>ReadResponse\<close>): the diagnostics and the state, \<open>None\<close> for no
  resource. \<open>State.Set\<close> with a model of the schema's four string attributes stores the
  model; \<open>State.RemoveResource\<close> stores \<open>None\<close>. A request is given by what its
  \<open>Plan.Get\<close>, \<open>State.Get\<close> or \<open>Config.Get\<close> yields: diagnostics and the decoded model.
\<close>

record response =
  Diagnostics :: "diagnostic list"
  State :: "APIKeyModel option"

type_synonym request = "diagnostic list \<times> APIKeyModel"

definition resp_AddError :: "response \<Rightarrow> string \<Rightarrow> string \<Rightarrow> response" where
  "resp_AddError resp summary detail =
     resp\<lparr>Diagnostics := AddError (Diagnostics resp) summary detail\<rparr>"

text \<open>
  Modelled from the spec: the client method \<open>GetKeyByAccessToken\<close>, which the
  resource's \<open>Read\<close> and the data source call, is not declared in the client source,
  which declares the lookup by access token as \<open>GetKey\<close>. The specification gives it
  as \<open>GetKeys\<close>, then a linear scan for the matching access token, returning the
  matching key or no value and no error, and propagating the errors of \<open>GetKeys\<close>:
  that is \<open>GetKey\<close>.
\<close>

definition GetKeyByAccessToken ::
  "'s env \<Rightarrow> Client \<Rightarrow> string \<Rightarrow> 's net \<Rightarrow> (error + APIKey option) \<times> 's net" where
  "GetKeyByAccessToken env c tok n = GetKey env c tok n"

subsection \<open>The resource\<close>

text \<open>
  \<open>existingIDs\<close> is a \<open>map[int64]bool\<close>; reading a key it does not hold yields \<open>false\<close>.
\<close>

definition index_bool :: "('k \<rightharpoonup> bool) \<Rightarrow> 'k \<Rightarrow> bool" where
  "index_bool m k = (case m k of None \<Rightarrow> False | Some b \<Rightarrow> b)"

fun Create_snapshot :: "APIKey list \<Rightarrow> (64 word \<rightharpoonup> bool) \<Rightarrow> (64 word \<rightharpoonup> bool)" where
  "Create_snapshot [] existingIDs = existingIDs"
| "Create_snapshot (key # rest) existingIDs =
     Create_snapshot rest (existingIDs(Id' key \<mapsto> True))"

fun Create_locate :: "(64 word \<rightharpoonup> bool) \<Rightarrow> string \<Rightarrow> APIKey list \<Rightarrow> APIKey option" where
  "Create_locate existingIDs appName [] = None"
| "Create_locate existingIDs appName (key # rest) =
     (if \<not> index_bool existingIDs (Id' key) \<and> AppName key = appName then Some key
      else Create_locate existingIDs appName rest)"

definition Create ::
  "'s env \<Rightarrow> Client \<Rightarrow> request \<Rightarrow> response \<Rightarrow> 's net \<Rightarrow> response \<times> 's net" where
  "Create env c plan resp0 n =
     (let data = snd plan;
          resp = resp0\<lparr>Diagnostics := Append (Diagnostics resp0) (fst plan)\<rparr>
      in if HasError (Diagnostics resp) then (resp, n)
         else
           let appName = ValueString (m_AppName data)
           in case GetKeys env c n of
                (Inl err, n1) \<Rightarrow>
                  (resp_AddError resp ''Client Error''
                     (''Unable to list existing API keys: '' @ err), n1)
              | (Inr existingKeys, n1) \<Rightarrow>
                  let existingIDs = Create_snapshot (Items existingKeys) Map.empty
                  in (case CreateKey env c appName n1 of
                        (Some err, n2) \<Rightarrow>
                          (resp_AddError resp ''Client Error''
                             (''Unable to create API key: '' @ err), n2)
                      | (None, n2) \<Rightarrow>
                          (case GetKeys env c n2 of
                             (Inl err, n3) \<Rightarrow>
                               (resp_AddError resp ''Client Error''
                                  (''Unable to list API keys after creation: '' @ err), n3)
                           | (Inr newKeys, n3) \<Rightarrow>
                               (case Create_locate existingIDs appName (Items newKeys) of
                                  None \<Rightarrow>
                                    (resp_AddError resp ''Client Error''
                                       ''Unable to find the newly created API key'', n3)
                                | Some createdKey \<Rightarrow>
                                    (resp\<lparr>State := Some (data
                                        \<lparr>m_ID := StringValue (AccessToken createdKey),
                                         m_AccessToken := StringValue (AccessToken createdKey),
                                         m_DateCreated := StringValue (DateCreated createdKey)\<rparr>)\<rparr>,
                                     n3)))))"

text \<open>The model written to the state from a key found by a lookup.\<close>

definition model_of_key :: "APIKeyModel \<Rightarrow> APIKey \<Rightarrow> APIKeyModel" where
  "model_of_key data key =
     data\<lparr>m_ID := StringValue (AccessToken key),
          m_AppName := StringValue (AppName key),
          m_AccessToken := StringValue (AccessToken key),
          m_DateCreated := StringValue (DateCreated key)\<rparr>"


definition Update :: "request \<Rightarrow> response \<Rightarrow> response" where
  "Update plan resp0 =
     (let data = snd plan;
          resp = resp0\<lparr>Diagnostics := Append (Diagnostics resp0) (fst plan)\<rparr>
      in if HasError (Diagnostics resp) then resp else resp\<lparr>State := Some data\<rparr>)"


subsection \<open>The data source\<close>

text \<open>The end of \<open>Read\<close>, from the result of the lookup on.\<close>

definition DataSource_Read_result ::
  "response \<Rightarrow> APIKeyModel \<Rightarrow> (error + APIKey option) \<times> 's net \<Rightarrow> response \<times> 's net" where
  "DataSource_Read_result resp data r =
     (case r of
        (Inl err, n1) \<Rightarrow>
          (resp_AddError resp ''Client Error'' (''Unable to read API key: '' @ err), n1)
      | (Inr None, n1) \<Rightarrow>
          (resp_AddError resp ''API Key Not Found'' ''The specified API key was not found.'', n1)
      | (Inr (Some key), n1) \<Rightarrow>
          (resp\<lparr>State := Some (model_of_key data key)\<rparr>, n1))"

definition DataSource_Read ::
  "'s env \<Rightarrow> Client \<Rightarrow> request \<Rightarrow> response \<Rightarrow> 's net \<Rightarrow> response \<times> 's net" where
  "DataSource_Read env c config resp0 n =
     (let data = snd config;
          resp = resp0\<lparr>Diagnostics := Append (Diagnostics resp0) (fst config)\<rparr>
      in if HasError (Diagnostics resp) then (resp, n)
         else
           let hasAppName = (\<not> IsNull (m_AppName data) \<and> \<not> IsUnknown (m_AppName data));
               hasAccessToken = (\<not> IsNull (m_AccessToken data) \<and> \<not> IsUnknown (m_AccessToken data))
           in if \<not> hasAppName \<and> \<not> hasAccessToken
              then (resp_AddError resp ''Missing Required Attribute''
                      ''Either 'app_name' or 'access_token' must be provided to look up an API key.'',
                    n)
              else
                DataSource_Read_result resp data
                  (if hasAccessToken
                   then GetKeyByAccessToken env c (ValueString (m_AccessToken data)) n
                   else FindKeyByAppName env c (ValueString (m_AppName data)) n))"

subsection \<open>Failure of the create-then-locate protocol\<close>

text \<open>
  The four ways in which \<open>Create\<close> can fail after reading its plan, as a predicate on
  the environment: the first listing fails, \<open>CreateKey\<close> fails, the second listing
  fails, or no key of the second listing is both new and of the requested name.
\<close>

definition Create_fails :: "'s env \<Rightarrow> Client \<Rightarrow> string \<Rightarrow> 's net \<Rightarrow> bool" where
  "Create_fails env c appName n =
     (case GetKeys env c n of
        (Inl err, n1) \<Rightarrow> True
      | (Inr existingKeys, n1) \<Rightarrow>
          (case CreateKey env c appName n1 of
             (Some err, n2) \<Rightarrow> True
           | (None, n2) \<Rightarrow>
               (case GetKeys env c n2 of
                  (Inl err, n3) \<Rightarrow> True
                | (Inr newKeys, n3) \<Rightarrow>
                    \<not> list_ex (\<lambda>k. Id' k \<notin> Id' ` set (Items existingKeys) \<and> AppName k = appName)
                         (Items newKeys))))"

subsection \<open>The requests of an operation\<close>

text \<open>The requests an operation has added to the network it was started on, oldest first.\<close>

definition requests :: "'s net \<Rightarrow> 's net \<Rightarrow> http_request list" where
  "requests n n' = drop (length (sent n)) (sent n')"

section \<open>A scripted server\<close>

text \<open>
  A concrete environment for the instances below, after the \<open>httptest\<close> servers of
  \<open>client_test.go\<close>. The server's state counts the \<open>POST\<close>s it has received. A \<open>GET\<close>
  answers with the status \<open>listStatus\<close> and the body \<open>before\<close> until the first \<open>POST\<close> and \<open>after\<close> from then
  on, which the decoder reads as the key lists \<open>existing\<close> and \<open>new\<close>; a \<open>POST\<close> or a
  \<open>DELETE\<close> answers with the given status and the body \<open>body\<close>. Every request can be
  built, and the authentication decoder takes the whole body as the access token.
\<close>

definition fake_env :: "APIKey list \<Rightarrow> APIKey list \<Rightarrow> int \<Rightarrow> int \<Rightarrow> nat env" where
  "fake_env existing new listStatus status =
     \<lparr>json_Marshal = (\<lambda>r. Inr (Username r @ '':'' @ Pw r)),
      http_NewRequest = (\<lambda>m u. None),
      http_Do = (\<lambda>req s.
        case Method req of
          MethodGet \<Rightarrow>
            (Inr \<lparr>StatusCode = listStatus,
                  Body = (if s = 0 then ''before'' else ''after'')\<rparr>, s)
        | MethodPost \<Rightarrow> (Inr \<lparr>StatusCode = status, Body = ''body''\<rparr>, Suc s)
        | MethodDelete \<Rightarrow> (Inr \<lparr>StatusCode = status, Body = ''body''\<rparr>, s)),
      decode_AuthenticateResponse = (\<lambda>b.
        Inr \<lparr>AuthAccessToken = b, ServerId = [], UserId = [], UserName = [],
             SessionInfoId = []\<rparr>),
      decode_APIKeyQueryResult = (\<lambda>b.
        if b = ''before''
        then Inr \<lparr>Items = existing, TotalRecordCount = int (length existing), StartIndex = 0\<rparr>
        else if b = ''after''
        then Inr \<lparr>Items = new, TotalRecordCount = int (length new), StartIndex = 0\<rparr>
        else Inl ''invalid character'')\<rparr>"

definition key1 :: APIKey where
  "key1 = \<lparr>Id' = 1, AccessToken = ''token-1'', AppName = ''App One'',
           DateCreated = ''2024-01-01T00:00:00Z''\<rparr>"

definition key2 :: APIKey where
  "key2 = \<lparr>Id' = 2, AccessToken = ''token-2'', AppName = ''App Two'',
           DateCreated = ''2024-01-02T00:00:00Z''\<rparr>"

definition key3 :: APIKey where
  "key3 = \<lparr>Id' = 3, AccessToken = ''token-3'', AppName = ''App Two'',
           DateCreated = ''2024-01-03T00:00:00Z''\<rparr>"

definition client0 :: Client where
  "client0 = NewClient ''http://localhost:8096/'' ''test-api-key''"

definition net0 :: "nat net" where
  "net0 = \<lparr>server = 0, sent = []\<rparr>"

definition resp_empty :: response where
  "resp_empty = \<lparr>Diagnostics = [], State = None\<rparr>"

definition model_with :: "types_String \<Rightarrow> types_String \<Rightarrow> request" where
  "model_with appName tok =
     ([], \<lparr>m_ID = Unknown, m_AppName = appName, m_AccessToken = tok,
           m_DateCreated = Unknown\<rparr>)"

section \<open>Properties\<close>

lemmas fake_simps =
  fake_env_def key1_def key2_def key3_def client0_def net0_def resp_empty_def model_with_def
  NewClient_def TrimSuffix_def HasSuffix_def GetKeys_def GetKey_def FindKeyByAppName_def
  GetKeyByAccessToken_def doRequest_def Do_def authorized_request_def token_header_def
  CreateKey_def DeleteKey_def status_error_def Let_def HasError_def resp_AddError_def
  AddError_def index_bool_def ValueString_def IsNull_def IsUnknown_def QueryEscape_def
  PathEscape_def escape_byte_def shouldEscape_def upperhex_def fmt_d_def model_of_key_def

subsection \<open>The loops as list functions\<close>


lemma GetKey_scan_find: "GetKey_scan items tok = find (\<lambda>k. AccessToken k = tok) items"
  by (induction items) simp_all

lemma FindKeyByAppName_scan_find:
  "FindKeyByAppName_scan items appName = find (\<lambda>k. AppName k = appName) items"
  by (induction items) simp_all

lemma index_bool_snapshot:
  "index_bool (Create_snapshot items m) i = (i \<in> Id' ` set items \<or> index_bool m i)"
  by (induction items arbitrary: m) (auto simp: index_bool_def)

lemma index_bool_snapshot_empty:
  "index_bool (Create_snapshot items Map.empty) i = (i \<in> Id' ` set items)"
  by (simp add: index_bool_snapshot) (simp add: index_bool_def)

lemma Create_locate_find:
  "Create_locate ex appName items =
     find (\<lambda>k. \<not> index_bool ex (Id' k) \<and> AppName k = appName) items"
  by (induction items) simp_all

lemma sent_Do: "sent (snd (Do env req n)) = sent n @ [req]"
  by (simp add: Do_def split: prod.splits)

lemma sent_doRequest:
  "sent (snd (doRequest env c m p n)) =
     sent n @ (if http_NewRequest env m (endpoint c @ p) = None
               then [authorized_request c m p] else [])"
  by (auto simp: doRequest_def Do_def split: option.splits prod.splits sum.splits)

lemma sent_GetKeys:
  "sent (snd (GetKeys env c n)) =
     sent n @ (if http_NewRequest env MethodGet (endpoint c @ ''/Auth/Keys'') = None
               then [authorized_request c MethodGet ''/Auth/Keys''] else [])"
  using sent_doRequest [of env c MethodGet "''/Auth/Keys''" n]
  by (auto simp: GetKeys_def split: prod.splits sum.splits)

lemma sent_GetKey: "sent (snd (GetKey env c tok n)) = sent (snd (GetKeys env c n))"
  by (auto simp: GetKey_def split: prod.splits sum.splits)

lemma sent_FindKeyByAppName:
  "sent (snd (FindKeyByAppName env c a n)) = sent (snd (GetKeys env c n))"
  by (auto simp: FindKeyByAppName_def split: prod.splits sum.splits)

lemma sent_CreateKey:
  "sent (snd (CreateKey env c a n)) =
     sent (snd (doRequest env c MethodPost (''/Auth/Keys?app='' @ QueryEscape a) n))"
  by (auto simp: CreateKey_def Let_def split: prod.splits sum.splits)

lemma sent_DeleteKey:
  "sent (snd (DeleteKey env c t n)) =
     sent (snd (doRequest env c MethodDelete (''/Auth/Keys/'' @ PathEscape t) n))"
  by (auto simp: DeleteKey_def Let_def split: prod.splits sum.splits)

subsection \<open>Diagnostics\<close>

lemma HasError_AddError: "HasError (AddError ds s d)"
proof (cases "\<lparr>Severity = SeverityError, Summary = s, Detail = d\<rparr> \<in> set ds")
  case True
  then have "\<exists>x\<in>set ds. Severity x = SeverityError"
    by (rule bexI [rotated]) simp
  with True show ?thesis
    by (simp add: AddError_def HasError_def list_ex_iff)
next
  case False
  then show ?thesis
    by (simp add: AddError_def HasError_def list_ex_iff)
qed

lemma HasError_resp_AddError: "HasError (Diagnostics (resp_AddError resp s d))"
  by (simp add: resp_AddError_def HasError_AddError)

lemma State_resp_AddError: "State (resp_AddError resp s d) = State resp"
  by (simp add: resp_AddError_def)

lemma find_None_list_ex: "(find P xs = None) = (\<not> list_ex P xs)"
  by (auto simp: find_None_iff list_ex_iff)

subsection \<open>The branches of \<open>Create\<close>\<close>

lemma Create_early:
  "HasError (Append (Diagnostics resp0) (fst plan)) \<Longrightarrow>
   Create env c plan resp0 n = (resp0\<lparr>Diagnostics := Append (Diagnostics resp0) (fst plan)\<rparr>, n)"
  by (simp add: Create_def Let_def)

lemma Create_list_error:
  "\<not> HasError (Append (Diagnostics resp0) (fst plan)) \<Longrightarrow>
   GetKeys env c n = (Inl err, n1) \<Longrightarrow>
   Create env c plan resp0 n =
     (resp_AddError (resp0\<lparr>Diagnostics := Append (Diagnostics resp0) (fst plan)\<rparr>)
        ''Client Error'' (''Unable to list existing API keys: '' @ err), n1)"
  by (simp add: Create_def Let_def)

lemma Create_create_error:
  "\<not> HasError (Append (Diagnostics resp0) (fst plan)) \<Longrightarrow>
   GetKeys env c n = (Inr existingKeys, n1) \<Longrightarrow>
   CreateKey env c (ValueString (m_AppName (snd plan))) n1 = (Some err, n2) \<Longrightarrow>
   Create env c plan resp0 n =
     (resp_AddError (resp0\<lparr>Diagnostics := Append (Diagnostics resp0) (fst plan)\<rparr>)
        ''Client Error'' (''Unable to create API key: '' @ err), n2)"
  by (simp add: Create_def Let_def)

lemma Create_relist_error:
  "\<not> HasError (Append (Diagnostics resp0) (fst plan)) \<Longrightarrow>
   GetKeys env c n = (Inr existingKeys, n1) \<Longrightarrow>
   CreateKey env c (ValueString (m_AppName (snd plan))) n1 = (None, n2) \<Longrightarrow>
   GetKeys env c n2 = (Inl err, n3) \<Longrightarrow>
   Create env c plan resp0 n =
     (resp_AddError (resp0\<lparr>Diagnostics := Append (Diagnostics resp0) (fst plan)\<rparr>)
        ''Client Error'' (''Unable to list API keys after creation: '' @ err), n3)"
  by (simp add: Create_def Let_def)

lemma Create_located:
  "\<not> HasError (Append (Diagnostics resp0) (fst plan)) \<Longrightarrow>
   GetKeys env c n = (Inr existingKeys, n1) \<Longrightarrow>
   CreateKey env c (ValueString (m_AppName (snd plan))) n1 = (None, n2) \<Longrightarrow>
   GetKeys env c n2 = (Inr newKeys, n3) \<Longrightarrow>
   Create env c plan resp0 n =
     (case find (\<lambda>k. Id' k \<notin> Id' ` set (Items existingKeys)
                      \<and> AppName k = ValueString (m_AppName (snd plan))) (Items newKeys) of
        None \<Rightarrow>
          (resp_AddError (resp0\<lparr>Diagnostics := Append (Diagnostics resp0) (fst plan)\<rparr>)
             ''Client Error'' ''Unable to find the newly created API key'', n3)
      | Some k \<Rightarrow>
          (resp0\<lparr>Diagnostics := Append (Diagnostics resp0) (fst plan),
                 State := Some ((snd plan)\<lparr>m_ID := StringValue (AccessToken k),
                                  m_AccessToken := StringValue (AccessToken k),
                                  m_DateCreated := StringValue (DateCreated k)\<rparr>)\<rparr>, n3))"
  by (simp add: Create_def Let_def Create_locate_find index_bool_snapshot_empty split: option.splits)

subsection \<open>The requests each operation sends\<close>

lemma requests_append: "sent n' = sent n @ rs \<Longrightarrow> requests n n' = rs"
  by (simp add: requests_def)

lemma requests_doRequest:
  "requests n (snd (doRequest env c m p n)) =
     (if http_NewRequest env m (endpoint c @ p) = None then [authorized_request c m p] else [])"
  by (rule requests_append) (simp add: sent_doRequest)

lemma requests_GetKeys:
  "requests n (snd (GetKeys env c n)) =
     (if http_NewRequest env MethodGet (endpoint c @ ''/Auth/Keys'') = None
      then [authorized_request c MethodGet ''/Auth/Keys''] else [])"
  by (rule requests_append) (simp add: sent_GetKeys)

lemma requests_GetKey: "requests n (snd (GetKey env c tok n)) = requests n (snd (GetKeys env c n))"
  by (simp add: requests_def sent_GetKey)

lemma requests_FindKeyByAppName:
  "requests n (snd (FindKeyByAppName env c a n)) = requests n (snd (GetKeys env c n))"
  by (simp add: requests_def sent_FindKeyByAppName)

lemma requests_CreateKey:
  "requests n (snd (CreateKey env c a n)) =
     (if http_NewRequest env MethodPost (endpoint c @ ''/Auth/Keys?app='' @ QueryEscape a) = None
      then [authorized_request c MethodPost (''/Auth/Keys?app='' @ QueryEscape a)] else [])"
  by (simp add: requests_def sent_CreateKey sent_doRequest)

lemma requests_DeleteKey:
  "requests n (snd (DeleteKey env c t n)) =
     (if http_NewRequest env MethodDelete (endpoint c @ ''/Auth/Keys/'' @ PathEscape t) = None
      then [authorized_request c MethodDelete (''/Auth/Keys/'' @ PathEscape t)] else [])"
  by (simp add: requests_def sent_DeleteKey sent_doRequest)

lemma sent_NewClientWithAuthAndConfig:
  "sent (snd (NewClientWithAuthAndConfig env e u p cfg n)) =
     sent n @
     (case json_Marshal env \<lparr>Username = u, Pw = p\<rparr> of
        Inl err \<Rightarrow> []
      | Inr body \<Rightarrow>
          if http_NewRequest env MethodPost (TrimSuffix e ''/'' @ ''/Users/AuthenticateByName'') = None
          then [\<lparr>Method = MethodPost,
                 URL = TrimSuffix e ''/'' @ ''/Users/AuthenticateByName'',
                 Authorization = auth_header (clientName_of cfg) (deviceName_of cfg)
                                   (deviceID_of cfg) (clientVersion_of cfg),
                 ContentType = Some ''application/json'',
                 ReqBody = Some body\<rparr>]
          else [])"
  by (auto simp: NewClientWithAuthAndConfig_def Let_def Do_def
      split: sum.splits option.splits prod.splits)

lemma requests_NewClientWithAuthAndConfig:
  "requests n (snd (NewClientWithAuthAndConfig env e u p cfg n)) =
     (case json_Marshal env \<lparr>Username = u, Pw = p\<rparr> of
        Inl err \<Rightarrow> []
      | Inr body \<Rightarrow>
          if http_NewRequest env MethodPost (TrimSuffix e ''/'' @ ''/Users/AuthenticateByName'') = None
          then [\<lparr>Method = MethodPost,
                 URL = TrimSuffix e ''/'' @ ''/Users/AuthenticateByName'',
                 Authorization = auth_header (clientName_of cfg) (deviceName_of cfg)
                                   (deviceID_of cfg) (clientVersion_of cfg),
                 ContentType = Some ''application/json'',
                 ReqBody = Some body\<rparr>]
          else [])"
  by (rule requests_append) (rule sent_NewClientWithAuthAndConfig)

lemma TrimSuffix_slash_append: "TrimSuffix (e @ ''/'') ''/'' = e"
  by (simp add: TrimSuffix_def HasSuffix_def)

lemma TrimSuffix_no_suffix: "\<not> HasSuffix e suffix \<Longrightarrow> TrimSuffix e suffix = e"
  by (simp add: TrimSuffix_def)

lemma endpoint_NewClientWithAuthAndConfig:
  "fst (NewClientWithAuthAndConfig env e u p cfg n) = Inr c \<Longrightarrow> endpoint c = TrimSuffix e ''/''"
  by (auto simp: NewClientWithAuthAndConfig_def Let_def
      split: sum.splits option.splits prod.splits if_splits)

subsection \<open>Authentication\<close>

lemma NewClientWithAuthAndConfig_success:
  assumes "json_Marshal env \<lparr>Username = u, Pw = p\<rparr> = Inr body"
    and "http_NewRequest env MethodPost (TrimSuffix e ''/'' @ ''/Users/AuthenticateByName'') = None"
    and "http_Do env
           \<lparr>Method = MethodPost, URL = TrimSuffix e ''/'' @ ''/Users/AuthenticateByName'',
            Authorization = auth_header (clientName_of cfg) (deviceName_of cfg)
                              (deviceID_of cfg) (clientVersion_of cfg),
            ContentType = Some ''application/json'', ReqBody = Some body\<rparr> (server n)
         = (Inr resp, s')"
    and "StatusCode resp = 200"
    and "decode_AuthenticateResponse env (Body resp) = Inr a"
    and "AuthAccessToken a \<noteq> []"
  shows "fst (NewClientWithAuthAndConfig env e u p cfg n)
           = Inr \<lparr>endpoint = TrimSuffix e ''/'', accessToken = AuthAccessToken a\<rparr>"
  using assms by (simp add: NewClientWithAuthAndConfig_def Let_def Do_def)

lemma NewClientWithAuthAndConfig_isl:
  "isl (fst (NewClientWithAuthAndConfig env e u p cfg n)) =
     (case json_Marshal env \<lparr>Username = u, Pw = p\<rparr> of
        Inl err \<Rightarrow> True
      | Inr body \<Rightarrow>
          http_NewRequest env MethodPost (TrimSuffix e ''/'' @ ''/Users/AuthenticateByName'') \<noteq> None
          \<or> (case fst (http_Do env
                 \<lparr>Method = MethodPost, URL = TrimSuffix e ''/'' @ ''/Users/AuthenticateByName'',
                  Authorization = auth_header (clientName_of cfg) (deviceName_of cfg)
                                    (deviceID_of cfg) (clientVersion_of cfg),
                  ContentType = Some ''application/json'', ReqBody = Some body\<rparr> (server n)) of
                Inl err \<Rightarrow> True
              | Inr resp \<Rightarrow>
                  StatusCode resp \<noteq> 200
                  \<or> (case decode_AuthenticateResponse env (Body resp) of
                        Inl err \<Rightarrow> True
                      | Inr a \<Rightarrow> AuthAccessToken a = [])))"
  by (auto simp: NewClientWithAuthAndConfig_def Let_def Do_def
      split: sum.splits option.splits prod.splits)

subsection \<open>Decimal rendering\<close>

lemma digit_char: "k < 10 \<Longrightarrow> of_char (''0123456789'' ! k) = (48 + k :: nat)"
proof -
  assume "k < 10"
  then have "k \<in> {0, 1, 2, 3, 4, 5, 6, 7, 8, 9}" by auto
  then show ?thesis by auto
qed

lemma decimal_value_snoc:
  "decimal_value (s @ [ch]) = 10 * decimal_value s + (of_char ch - 48)"
  by (simp add: decimal_value_def)

lemma decimal_value_digits: "decimal_value (digits n) = n"
proof (induction n rule: digits.induct)
  case (1 n)
  show ?case
  proof (cases "n < 10")
    case True
    then show ?thesis
      by (subst digits.simps) (simp add: decimal_value_def digit_char del: nth_Cons_numeral)
  next
    case False
    with 1 have "decimal_value (digits (n div 10)) = n div 10" by simp
    with False show ?thesis
      by (subst digits.simps) (simp add: decimal_value_snoc digit_char del: nth_Cons_numeral)
  qed
qed

subsection \<open>Percent-encoding\<close>

lemma less_16_cases:
  "(k::nat) < 16 \<Longrightarrow> k \<in> {0, 1, 2, 3, 4, 5, 6, 7, 8, 9, 10, 11, 12, 13, 14, 15}"
  by (simp only: insert_iff empty_iff) presburger

lemma upperhex_nth_ishex: "k < 16 \<Longrightarrow> ishex (upperhex ! k)"
  by (drule less_16_cases) (auto simp: upperhex_def ishex_def less_eq_char_def)

lemma upperhex_nth_unhex: "k < 16 \<Longrightarrow> unhex (upperhex ! k) = k"
  by (drule less_16_cases) (auto simp: upperhex_def unhex_def less_eq_char_def)

lemma upperhex_nth_mem: "k < 16 \<Longrightarrow> upperhex ! k \<in> set upperhex"
  by (rule nth_mem) (simp add: upperhex_def)

lemma of_char_less_256: "(of_char c :: nat) < 256"
proof -
  have "(of_char c :: nat) mod 256 < 256" by simp
  then show ?thesis by (simp only: of_char_mod_256)
qed

lemma of_char_div_16: "(of_char c :: nat) div 16 < 16"
  using of_char_less_256 [of c] by (intro less_mult_imp_div_less) simp

lemma char_of_hex: "char_of ((of_char c :: nat) div 16 * 16 + of_char c mod 16) = c"
  by simp


lemma not_shouldEscape_plain:
  "\<not> shouldEscape c mode \<Longrightarrow> c \<noteq> CHR ''%'' \<and> c \<noteq> CHR '' '' \<and> c \<noteq> CHR ''/'' \<and> c \<noteq> CHR ''?''
     \<and> c \<noteq> CHR ''#'' \<and> c \<noteq> CHR '';'' \<and> (mode = encodeQueryComponent \<longrightarrow> c \<noteq> CHR ''+''
     \<and> c \<noteq> CHR ''&'' \<and> c \<noteq> CHR ''='')"
  by (cases mode) (auto simp: shouldEscape_def less_eq_char_def)

lemma unescape_plain:
  "c \<noteq> CHR ''%'' \<Longrightarrow> \<not> (c = CHR ''+'' \<and> mode = encodeQueryComponent) \<Longrightarrow>
   unescape mode (c # rest) = map_option ((#) c) (unescape mode rest)"
  by auto

lemma unescape_percent:
  "ishex h1 \<Longrightarrow> ishex h2 \<Longrightarrow>
   unescape mode (CHR ''%'' # h1 # h2 # rest)
     = map_option ((#) (char_of (unhex h1 * 16 + unhex h2))) (unescape mode rest)"
  by simp

lemma unescape_escape_byte:
  "unescape mode (escape_byte mode c @ rest) = map_option ((#) c) (unescape mode rest)"
proof (cases "c = CHR '' '' \<and> mode = encodeQueryComponent")
  case True
  then show ?thesis by (simp add: escape_byte_def)
next
  case False
  show ?thesis
  proof (cases "shouldEscape c mode")
    case True
    have m: "(of_char c :: nat) mod 16 < 16" by simp
    from True False have "escape_byte mode c
        = [CHR ''%'', upperhex ! (of_char c div 16), upperhex ! (of_char c mod 16)]"
      by (simp add: escape_byte_def)
    then have "unescape mode (escape_byte mode c @ rest)
        = map_option ((#) (char_of (unhex (upperhex ! (of_char c div 16)) * 16
                                     + unhex (upperhex ! (of_char c mod 16)))))
            (unescape mode rest)"
      using upperhex_nth_ishex [OF of_char_div_16 [of c]] upperhex_nth_ishex [OF m]
      by (simp only: append_Cons append_Nil unescape_percent)
    then show ?thesis
      by (simp only: upperhex_nth_unhex [OF of_char_div_16] upperhex_nth_unhex [OF m] char_of_hex)
  next
    case no: False
    from not_shouldEscape_plain [OF no]
    have "c \<noteq> CHR ''%''" and "\<not> (c = CHR ''+'' \<and> mode = encodeQueryComponent)" by auto
    then have "unescape mode (c # rest) = map_option ((#) c) (unescape mode rest)"
      by (rule unescape_plain)
    moreover from no False have "escape_byte mode c = [c]" by (simp add: escape_byte_def)
    ultimately show ?thesis by simp
  qed
qed

lemma unescape_escape: "unescape mode (escape mode s) = Some s"
proof (induction s)
  case Nil
  show ?case by simp
next
  case (Cons c s)
  have "unescape mode (escape mode (c # s)) = map_option ((#) c) (unescape mode (escape mode s))"
    by (simp only: escape.simps unescape_escape_byte)
  with Cons.IH show ?case by simp
qed


lemma escape_byte_chars:
  "x \<in> set (escape_byte mode c) \<Longrightarrow>
     x \<in> set ''%+'' \<or> x \<in> set upperhex \<or> (x = c \<and> \<not> shouldEscape c mode)"
proof -
  assume x: "x \<in> set (escape_byte mode c)"
  have m: "(of_char c :: nat) mod 16 < 16" by simp
  note h1 = upperhex_nth_mem [OF of_char_div_16 [of c]]
  note h2 = upperhex_nth_mem [OF m]
  from x h1 h2 show ?thesis
    by (auto simp: escape_byte_def split: if_splits)
qed

lemma escape_chars:
  "x \<in> set (escape mode s) \<Longrightarrow>
     x \<in> set ''%+'' \<or> x \<in> set upperhex \<or> (x \<in> set s \<and> \<not> shouldEscape x mode)"
proof (induction s)
  case Nil
  then show ?case by simp
next
  case (Cons c s)
  from Cons.prems have "x \<in> set (escape_byte mode c) \<or> x \<in> set (escape mode s)" by simp
  then show ?case
  proof
    assume "x \<in> set (escape_byte mode c)"
    from escape_byte_chars [OF this] show ?thesis by auto
  next
    assume "x \<in> set (escape mode s)"
    from Cons.IH [OF this] show ?thesis by auto
  qed
qed

lemma separator_not_hex: "x \<in> set ''/?#&=;'' \<Longrightarrow> x \<notin> set ''%+'' \<and> x \<notin> set upperhex"
  by (auto simp: upperhex_def)

lemma QueryEscape_no_separator: "x \<in> set ''/?#&=;'' \<Longrightarrow> x \<notin> set (QueryEscape s)"
proof
  assume sep: "x \<in> set ''/?#&=;''" and mem: "x \<in> set (QueryEscape s)"
  from mem have "x \<in> set ''%+'' \<or> x \<in> set upperhex
                  \<or> (x \<in> set s \<and> \<not> shouldEscape x encodeQueryComponent)"
    unfolding QueryEscape_def by (rule escape_chars)
  with separator_not_hex [OF sep] have "\<not> shouldEscape x encodeQueryComponent" by blast
  from not_shouldEscape_plain [OF this] sep show False by auto
qed

lemma PathEscape_no_separator: "x \<in> set ''/?#;'' \<Longrightarrow> x \<notin> set (PathEscape s)"
proof
  assume sep: "x \<in> set ''/?#;''" and mem: "x \<in> set (PathEscape s)"
  from sep have sep': "x \<in> set ''/?#&=;''" by auto
  from mem have "x \<in> set ''%+'' \<or> x \<in> set upperhex
                  \<or> (x \<in> set s \<and> \<not> shouldEscape x encodePathSegment)"
    unfolding PathEscape_def by (rule escape_chars)
  with separator_not_hex [OF sep'] have "\<not> shouldEscape x encodePathSegment" by blast
  from not_shouldEscape_plain [OF this] sep show False by auto
qed

subsection \<open>The data source\<close>

lemma Append_single_set:
  "set (Append ds [d]) = insert d (set ds)"
  by auto

lemma no_error_no_error_diag:
  "\<not> HasError ds \<Longrightarrow> \<lparr>Severity = SeverityError, Summary = s, Detail = d\<rparr> \<notin> set ds"
  by (auto simp: HasError_def list_ex_iff)

lemma Diagnostics_resp_AddError:
  "set (Diagnostics (resp_AddError resp s d))
     = insert \<lparr>Severity = SeverityError, Summary = s, Detail = d\<rparr> (set (Diagnostics resp))"
  by (auto simp: resp_AddError_def AddError_def)

lemma DataSource_Read_result_no_attribute_error:
  assumes "\<not> HasError (Diagnostics resp)"
  shows "\<lparr>Severity = SeverityError, Summary = ''Missing Required Attribute'', Detail = d\<rparr>
           \<notin> set (Diagnostics (fst (DataSource_Read_result resp data r)))"
  using no_error_no_error_diag [OF assms, of "''Missing Required Attribute''" d]
  by (auto simp: DataSource_Read_result_def Diagnostics_resp_AddError
      split: prod.splits sum.splits option.splits)

subsection \<open>Counting requests\<close>













section \<open>Claims\<close>




text \<open>
  C2. \<open>GetKey\<close> (the lookup by access token) and \<open>FindKeyByAppName\<close> fetch the list
  with \<open>GetKeys\<close>. When \<open>GetKeys\<close> fails, both return its error unchanged. Otherwise
  each returns the first item of the list, in list order, whose access token
  (respectively application name) equals the value searched for, and no value and no
  error when no item matches: \<open>find\<close> is the first element of a list that satisfies a
  predicate, \<open>None\<close> when there is none.
\<close>

theorem lookup_first_match:
  "(case GetKeys env c n of
      (Inl err, n') \<Rightarrow>
        GetKey env c tok n = (Inl err, n') \<and> FindKeyByAppName env c app n = (Inl err, n')
    | (Inr result, n') \<Rightarrow>
        GetKey env c tok n = (Inr (find (\<lambda>k. AccessToken k = tok) (Items result)), n') \<and>
        FindKeyByAppName env c app n = (Inr (find (\<lambda>k. AppName k = app) (Items result)), n'))"
  by (simp add: GetKey_def FindKeyByAppName_def GetKey_scan_find FindKeyByAppName_scan_find
      split: prod.splits sum.splits)

theorem lookup_first_match_witness:
  "fst (GetKey (fake_env [key1, key2, key3] [] 200 204) client0 ''token-2'' net0) = Inr (Some key2) \<and>
   fst (FindKeyByAppName (fake_env [key1, key2, key3] [] 200 204) client0 ''App Two'' net0)
     = Inr (Some key2) \<and>
   fst (GetKey (fake_env [key1, key2, key3] [] 200 204) client0 ''missing'' net0) = Inr None \<and>
   fst (FindKeyByAppName (fake_env [key1, key2, key3] [] 200 204) client0 ''missing'' net0)
     = Inr None \<and>
   fst (GetKeys (fake_env [key1] [] 500 204) client0 net0)
     = Inl ''API request failed with status 500: before'' \<and>
   fst (GetKey (fake_env [key1] [] 500 204) client0 ''token-1'' net0)
     = Inl ''API request failed with status 500: before'' \<and>
   fst (FindKeyByAppName (fake_env [key1] [] 500 204) client0 ''App One'' net0)
     = Inl ''API request failed with status 500: before''"
  using lookup_first_match [where env = "fake_env [key1, key2, key3] [] 200 204" and c = client0
          and n = net0 and tok = "''token-2''" and app = "''App Two''"]
        lookup_first_match [where env = "fake_env [key1, key2, key3] [] 200 204" and c = client0
          and n = net0 and tok = "''missing''" and app = "''missing''"]
        lookup_first_match [where env = "fake_env [key1] [] 500 204" and c = client0
          and n = net0 and tok = "''token-1''" and app = "''App One''"]
  by (simp add: fake_simps)

text \<open>
  C10. When \<open>Create\<close> fails at any point (the listing before the creation, the call of
  \<open>CreateKey\<close>, the listing after it, or no key of the second listing that is both new
  and of the requested name), its response carries an error diagnostic and its state is
  the state it was given: nothing is written.
\<close>

theorem Create_failure_no_state:
  assumes fails: "Create_fails env c (ValueString (m_AppName (snd plan))) n"
  shows "HasError (Diagnostics (fst (Create env c plan resp0 n))) \<and>
         State (fst (Create env c plan resp0 n)) = State resp0"
proof (cases "HasError (Append (Diagnostics resp0) (fst plan))")
  case True
  then show ?thesis by (simp add: Create_early)
next
  case ok: False
  obtain r1 n1 where g1: "GetKeys env c n = (r1, n1)" by (cases "GetKeys env c n")
  show ?thesis
  proof (cases r1)
    case (Inl err)
    with ok g1 show ?thesis
      by (simp add: Create_list_error HasError_resp_AddError State_resp_AddError)
  next
    case existing: (Inr existingKeys)
    obtain r2 n2 where g2: "CreateKey env c (ValueString (m_AppName (snd plan))) n1 = (r2, n2)"
      by (cases "CreateKey env c (ValueString (m_AppName (snd plan))) n1")
    show ?thesis
    proof (cases r2)
      case (Some err)
      with ok g1 existing g2 show ?thesis
        by (simp add: Create_create_error HasError_resp_AddError State_resp_AddError)
    next
      case created: None
      obtain r3 n3 where g3: "GetKeys env c n2 = (r3, n3)" by (cases "GetKeys env c n2")
      show ?thesis
      proof (cases r3)
        case (Inl err)
        with ok g1 existing g2 created g3 show ?thesis
          by (simp add: Create_relist_error HasError_resp_AddError State_resp_AddError)
      next
        case (Inr newKeys)
        with fails g1 existing g2 created g3
        have "find (\<lambda>k. Id' k \<notin> Id' ` set (Items existingKeys)
                      \<and> AppName k = ValueString (m_AppName (snd plan))) (Items newKeys) = None"
          by (simp add: Create_fails_def find_None_list_ex)
        with ok g1 existing g2 created g3 Inr show ?thesis
          by (simp add: Create_located HasError_resp_AddError State_resp_AddError)
      qed
    qed
  qed
qed


theorem Create_failure_no_state_witness:
  "Create_fails (fake_env [key1] [key1] 200 204) client0 ''App One'' net0 \<and>
   HasError (Diagnostics (fst (Create (fake_env [key1] [key1] 200 204) client0
       (model_with (StringValue ''App One'') Unknown) resp_empty net0))) \<and>
   State (fst (Create (fake_env [key1] [key1] 200 204) client0
       (model_with (StringValue ''App One'') Unknown) resp_empty net0)) = None"
proof -
  have f: "Create_fails (fake_env [key1] [key1] 200 204) client0
             (ValueString (m_AppName (snd (model_with (StringValue ''App One'') Unknown)))) net0"
    by (simp add: Create_fails_def fake_simps)
  from Create_failure_no_state [OF f, of resp_empty] f show ?thesis
    by (simp add: model_with_def ValueString_def resp_empty_def)
qed

text \<open>
  C4. Both constructors strip one trailing slash from the endpoint, once: an endpoint
  \<open>e/\<close> is stored as \<open>e\<close> (also when \<open>e\<close> itself ends in a slash), and an endpoint
  without a trailing slash is stored unchanged. Every request URL is the stored endpoint
  followed directly by the request path: the authentication request goes to
  \<open>e/Users/AuthenticateByName\<close>, and the operations of a client go to its endpoint
  followed by \<open>/Auth/Keys\<close>, \<open>/Auth/Keys?app=\<dots>\<close> or \<open>/Auth/Keys/\<dots>\<close>.
\<close>

theorem trailing_slash_stripped_once:
  "endpoint (NewClient (e @ ''/'') tok) = e \<and>
   (\<not> HasSuffix e ''/'' \<longrightarrow> endpoint (NewClient e tok) = e) \<and>
   (\<forall>c. fst (NewClientWithAuthAndConfig env (e @ ''/'') u p cfg n) = Inr c \<longrightarrow> endpoint c = e) \<and>
   (\<forall>c. \<not> HasSuffix e ''/'' \<and> fst (NewClientWithAuthAndConfig env e u p cfg n) = Inr c
        \<longrightarrow> endpoint c = e) \<and>
   set (map URL (requests n (snd (NewClientWithAuthAndConfig env (e @ ''/'') u p cfg n))))
     \<subseteq> {e @ ''/Users/AuthenticateByName''} \<and>
   set (map URL (requests n (snd (doRequest env c' m path n)))) \<subseteq> {endpoint c' @ path} \<and>
   set (map URL (requests n (snd (GetKeys env c' n)))) \<subseteq> {endpoint c' @ ''/Auth/Keys''} \<and>
   set (map URL (requests n (snd (GetKey env c' t n)))) \<subseteq> {endpoint c' @ ''/Auth/Keys''} \<and>
   set (map URL (requests n (snd (FindKeyByAppName env c' a n)))) \<subseteq> {endpoint c' @ ''/Auth/Keys''} \<and>
   set (map URL (requests n (snd (CreateKey env c' a n))))
     \<subseteq> {endpoint c' @ ''/Auth/Keys?app='' @ QueryEscape a} \<and>
   set (map URL (requests n (snd (DeleteKey env c' t n))))
     \<subseteq> {endpoint c' @ ''/Auth/Keys/'' @ PathEscape t}"
proof -
  have 1: "endpoint (NewClient (e @ ''/'') tok) = e"
    by (simp add: NewClient_def TrimSuffix_slash_append)
  have 2: "\<not> HasSuffix e ''/'' \<longrightarrow> endpoint (NewClient e tok) = e"
    by (simp add: NewClient_def TrimSuffix_no_suffix)
  have 3: "\<forall>c. fst (NewClientWithAuthAndConfig env (e @ ''/'') u p cfg n) = Inr c \<longrightarrow> endpoint c = e"
    using endpoint_NewClientWithAuthAndConfig [of env "e @ ''/''" u p cfg n]
    by (simp add: TrimSuffix_slash_append)
  have 4: "\<forall>c. \<not> HasSuffix e ''/'' \<and> fst (NewClientWithAuthAndConfig env e u p cfg n) = Inr c
        \<longrightarrow> endpoint c = e"
    using endpoint_NewClientWithAuthAndConfig [of env e u p cfg n]
    by (simp add: TrimSuffix_no_suffix)
  have 5: "set (map URL (requests n (snd (NewClientWithAuthAndConfig env (e @ ''/'') u p cfg n))))
     \<subseteq> {e @ ''/Users/AuthenticateByName''}"
    by (cases "json_Marshal env \<lparr>Username = u, Pw = p\<rparr>")
      (auto simp: requests_NewClientWithAuthAndConfig TrimSuffix_slash_append)
  have 6: "set (map URL (requests n (snd (doRequest env c' m path n)))) \<subseteq> {endpoint c' @ path}"
    by (auto simp: requests_doRequest authorized_request_def)
  have 7: "set (map URL (requests n (snd (GetKeys env c' n)))) \<subseteq> {endpoint c' @ ''/Auth/Keys''}"
    by (auto simp: requests_GetKeys authorized_request_def)
  have 8: "set (map URL (requests n (snd (GetKey env c' t n)))) \<subseteq> {endpoint c' @ ''/Auth/Keys''}"
    by (auto simp: requests_GetKey requests_GetKeys authorized_request_def)
  have 9: "set (map URL (requests n (snd (FindKeyByAppName env c' a n))))
     \<subseteq> {endpoint c' @ ''/Auth/Keys''}"
    by (auto simp: requests_FindKeyByAppName requests_GetKeys authorized_request_def)
  have 10: "set (map URL (requests n (snd (CreateKey env c' a n))))
     \<subseteq> {endpoint c' @ ''/Auth/Keys?app='' @ QueryEscape a}"
    by (auto simp: requests_CreateKey authorized_request_def)
  have 11: "set (map URL (requests n (snd (DeleteKey env c' t n))))
     \<subseteq> {endpoint c' @ ''/Auth/Keys/'' @ PathEscape t}"
    by (auto simp: requests_DeleteKey authorized_request_def)
  from 1 2 3 4 5 6 7 8 9 10 11 show ?thesis by blast
qed

theorem trailing_slash_stripped_once_witness:
  "endpoint (NewClient ''http://localhost:8096/'' ''token'') = ''http://localhost:8096'' \<and>
   endpoint (NewClient ''http://localhost:8096'' ''token'') = ''http://localhost:8096'' \<and>
   endpoint (NewClient ''http://localhost:8096//'' ''token'') = ''http://localhost:8096/'' \<and>
   fst (NewClientWithAuthAndConfig (fake_env [] [] 200 200) ''http://localhost:8096/''
          ''user'' ''pass'' None net0)
     = Inr \<lparr>endpoint = ''http://localhost:8096'', accessToken = ''body''\<rparr> \<and>
   map URL (requests net0 (snd (NewClientWithAuthAndConfig (fake_env [] [] 200 200)
          ''http://localhost:8096/'' ''user'' ''pass'' None net0)))
     = [''http://localhost:8096/Users/AuthenticateByName''] \<and>
   map URL (requests net0 (snd (GetKeys (fake_env [] [] 200 200)
          (NewClient ''http://localhost:8096/'' ''token'') net0)))
     = [''http://localhost:8096/Auth/Keys''] \<and>
   map URL (requests net0 (snd (DeleteKey (fake_env [] [] 200 200)
          (NewClient ''http://localhost:8096/'' ''token'') ''token-1'' net0)))
     = [''http://localhost:8096/Auth/Keys/token-1'']"
  using trailing_slash_stripped_once [where e = "''http://localhost:8096''" and tok = "''token''"
          and env = "fake_env [] [] 200 200" and u = "''user''" and p = "''pass''"
          and cfg = None and n = net0 and c' = "NewClient ''http://localhost:8096/'' ''token''"
          and m = MethodGet and path = "''/Auth/Keys''" and t = "''token-1''" and a = "''App''"]
  by (simp add: fake_simps requests_def NewClientWithAuthAndConfig_def)

text \<open>
  C3. \<open>NewClientWithAuthAndConfig\<close> (and so \<open>NewClientWithAuth\<close>, which passes no
  configuration) returns an error exactly when the request cannot be built (the body
  cannot be marshalled or \<open>http.NewRequestWithContext\<close> refuses the URL), it cannot be
  sent, the status is not 200, the body cannot be decoded, or the decoded access token
  is empty. When the response has status 200 and decodes to a non-empty access token,
  it returns a client holding that token, and every request this client builds carries
  the header \<^verbatim>\<open>Authorization: MediaBrowser Token="<that token>"\<close>.
\<close>

theorem NewClientWithAuth_fails_iff:
  "(isl (fst (NewClientWithAuthAndConfig env e u p cfg n)) =
     (case json_Marshal env \<lparr>Username = u, Pw = p\<rparr> of
        Inl err \<Rightarrow> True
      | Inr body \<Rightarrow>
          http_NewRequest env MethodPost (TrimSuffix e ''/'' @ ''/Users/AuthenticateByName'') \<noteq> None
          \<or> (case fst (http_Do env
                 \<lparr>Method = MethodPost, URL = TrimSuffix e ''/'' @ ''/Users/AuthenticateByName'',
                  Authorization = auth_header (clientName_of cfg) (deviceName_of cfg)
                                    (deviceID_of cfg) (clientVersion_of cfg),
                  ContentType = Some ''application/json'', ReqBody = Some body\<rparr> (server n)) of
                Inl err \<Rightarrow> True
              | Inr resp \<Rightarrow>
                  StatusCode resp \<noteq> 200
                  \<or> (case decode_AuthenticateResponse env (Body resp) of
                        Inl err \<Rightarrow> True
                      | Inr a \<Rightarrow> AuthAccessToken a = [])))) \<and>
   NewClientWithAuth env e u p n = NewClientWithAuthAndConfig env e u p None n \<and>
   (\<forall>body resp s' a.
      json_Marshal env \<lparr>Username = u, Pw = p\<rparr> = Inr body \<and>
      http_NewRequest env MethodPost (TrimSuffix e ''/'' @ ''/Users/AuthenticateByName'') = None \<and>
      http_Do env
        \<lparr>Method = MethodPost, URL = TrimSuffix e ''/'' @ ''/Users/AuthenticateByName'',
         Authorization = auth_header (clientName_of cfg) (deviceName_of cfg)
                           (deviceID_of cfg) (clientVersion_of cfg),
         ContentType = Some ''application/json'', ReqBody = Some body\<rparr> (server n)
        = (Inr resp, s') \<and>
      StatusCode resp = 200 \<and>
      decode_AuthenticateResponse env (Body resp) = Inr a \<and>
      AuthAccessToken a \<noteq> []
      \<longrightarrow> (\<exists>c. fst (NewClientWithAuthAndConfig env e u p cfg n) = Inr c \<and>
               accessToken c = AuthAccessToken a \<and>
               (\<forall>m path n2.
                  http_NewRequest env m (endpoint c @ path) = None \<longrightarrow>
                  map Authorization (requests n2 (snd (doRequest env c m path n2)))
                    = [''MediaBrowser Token=\"'' @ AuthAccessToken a @ ''\"''])))"
proof (intro conjI allI impI)
  show "isl (fst (NewClientWithAuthAndConfig env e u p cfg n)) =
     (case json_Marshal env \<lparr>Username = u, Pw = p\<rparr> of
        Inl err \<Rightarrow> True
      | Inr body \<Rightarrow>
          http_NewRequest env MethodPost (TrimSuffix e ''/'' @ ''/Users/AuthenticateByName'') \<noteq> None
          \<or> (case fst (http_Do env
                 \<lparr>Method = MethodPost, URL = TrimSuffix e ''/'' @ ''/Users/AuthenticateByName'',
                  Authorization = auth_header (clientName_of cfg) (deviceName_of cfg)
                                    (deviceID_of cfg) (clientVersion_of cfg),
                  ContentType = Some ''application/json'', ReqBody = Some body\<rparr> (server n)) of
                Inl err \<Rightarrow> True
              | Inr resp \<Rightarrow>
                  StatusCode resp \<noteq> 200
                  \<or> (case decode_AuthenticateResponse env (Body resp) of
                        Inl err \<Rightarrow> True
                      | Inr a \<Rightarrow> AuthAccessToken a = [])))"
    by (rule NewClientWithAuthAndConfig_isl)
next
  show "NewClientWithAuth env e u p n = NewClientWithAuthAndConfig env e u p None n"
    by (simp add: NewClientWithAuth_def)
next
  fix body resp s' a
  assume h: "json_Marshal env \<lparr>Username = u, Pw = p\<rparr> = Inr body \<and>
      http_NewRequest env MethodPost (TrimSuffix e ''/'' @ ''/Users/AuthenticateByName'') = None \<and>
      http_Do env
        \<lparr>Method = MethodPost, URL = TrimSuffix e ''/'' @ ''/Users/AuthenticateByName'',
         Authorization = auth_header (clientName_of cfg) (deviceName_of cfg)
                           (deviceID_of cfg) (clientVersion_of cfg),
         ContentType = Some ''application/json'', ReqBody = Some body\<rparr> (server n)
        = (Inr resp, s') \<and>
      StatusCode resp = 200 \<and>
      decode_AuthenticateResponse env (Body resp) = Inr a \<and>
      AuthAccessToken a \<noteq> []"
  let ?c = "\<lparr>endpoint = TrimSuffix e ''/'', accessToken = AuthAccessToken a\<rparr>"
  from h have ok: "fst (NewClientWithAuthAndConfig env e u p cfg n) = Inr ?c"
    by (intro NewClientWithAuthAndConfig_success [where body = body and resp = resp and s' = s'])
      simp_all
  have hdr: "\<forall>m path n2.
      http_NewRequest env m (endpoint ?c @ path) = None \<longrightarrow>
      map Authorization (requests n2 (snd (doRequest env ?c m path n2)))
        = [''MediaBrowser Token=\"'' @ AuthAccessToken a @ ''\"'']"
    by (simp add: requests_doRequest authorized_request_def token_header_def)
  from ok hdr
  show "\<exists>c. fst (NewClientWithAuthAndConfig env e u p cfg n) = Inr c \<and>
           accessToken c = AuthAccessToken a \<and>
           (\<forall>m path n2.
              http_NewRequest env m (endpoint c @ path) = None \<longrightarrow>
              map Authorization (requests n2 (snd (doRequest env c m path n2)))
                = [''MediaBrowser Token=\"'' @ AuthAccessToken a @ ''\"''])"
    by (intro exI [of _ ?c]) simp
qed

theorem NewClientWithAuth_fails_iff_witness:
  "fst (NewClientWithAuth (fake_env [] [] 200 200) ''http://localhost:8096/'' ''user'' ''pass'' net0)
     = Inr \<lparr>endpoint = ''http://localhost:8096'', accessToken = ''body''\<rparr> \<and>
   map Authorization (requests net0 (snd (doRequest (fake_env [] [] 200 200)
       \<lparr>endpoint = ''http://localhost:8096'', accessToken = ''body''\<rparr>
       MethodGet ''/Auth/Keys'' net0)))
     = [''MediaBrowser Token=\"body\"''] \<and>
   fst (NewClientWithAuth (fake_env [] [] 200 401) ''http://localhost:8096/'' ''user'' ''pass'' net0)
     = Inl ''authentication failed with status 401: body''"
proof -
  let ?env = "fake_env [] [] 200 200 :: nat env"
  let ?e = "''http://localhost:8096/''"
  note t = NewClientWithAuth_fails_iff [where env = ?env and e = ?e and u = "''user''"
      and p = "''pass''" and cfg = None and n = net0]
  note f = NewClientWithAuth_fails_iff [where env = "fake_env [] [] 200 401 :: nat env"
      and e = ?e and u = "''user''" and p = "''pass''" and cfg = None and n = net0]
  have h: "json_Marshal ?env \<lparr>Username = ''user'', Pw = ''pass''\<rparr> = Inr ''user:pass'' \<and>
      http_NewRequest ?env MethodPost (TrimSuffix ?e ''/'' @ ''/Users/AuthenticateByName'') = None \<and>
      http_Do ?env
        \<lparr>Method = MethodPost, URL = TrimSuffix ?e ''/'' @ ''/Users/AuthenticateByName'',
         Authorization = auth_header (clientName_of None) (deviceName_of None)
                           (deviceID_of None) (clientVersion_of None),
         ContentType = Some ''application/json'', ReqBody = Some ''user:pass''\<rparr> (server net0)
        = (Inr \<lparr>StatusCode = 200, Body = ''body''\<rparr>, Suc 0) \<and>
      StatusCode \<lparr>StatusCode = 200, Body = ''body''\<rparr> = 200 \<and>
      decode_AuthenticateResponse ?env (Body \<lparr>StatusCode = 200, Body = ''body''\<rparr>)
        = Inr \<lparr>AuthAccessToken = ''body'', ServerId = [], UserId = [], UserName = [],
               SessionInfoId = []\<rparr> \<and>
      AuthAccessToken \<lparr>AuthAccessToken = ''body'', ServerId = [], UserId = [], UserName = [],
               SessionInfoId = []\<rparr> \<noteq> []"
    by (simp add: fake_env_def net0_def)
  from t [THEN conjunct2, THEN conjunct2, THEN spec, THEN spec, THEN spec, THEN spec, THEN mp, OF h]
  obtain c where c: "fst (NewClientWithAuthAndConfig ?env ?e ''user'' ''pass'' None net0) = Inr c"
    and tok: "accessToken c = ''body''"
    and hdr: "\<forall>m path n2.
        http_NewRequest ?env m (endpoint c @ path) = None \<longrightarrow>
        map Authorization (requests n2 (snd (doRequest ?env c m path n2)))
          = [''MediaBrowser Token=\"body\"'']"
    by auto
  have ep: "endpoint c = ''http://localhost:8096''"
    using endpoint_NewClientWithAuthAndConfig [OF c] by (simp add: TrimSuffix_def HasSuffix_def)
  from ep tok have ceq: "c = \<lparr>endpoint = ''http://localhost:8096'', accessToken = ''body''\<rparr>"
    by (cases c) simp
  have nr: "http_NewRequest ?env MethodGet (endpoint c @ ''/Auth/Keys'') = None"
    by (simp add: fake_env_def)
  from hdr [THEN spec, THEN spec, THEN spec, THEN mp, OF nr, of net0]
  have g: "map Authorization (requests net0 (snd (doRequest ?env c MethodGet ''/Auth/Keys'' net0)))
          = [''MediaBrowser Token=\"body\"'']" .
  have bad: "fst (NewClientWithAuth (fake_env [] [] 200 401) ?e ''user'' ''pass'' net0)
     = Inl ''authentication failed with status 401: body''"
    using f by (simp add: NewClientWithAuth_def NewClientWithAuthAndConfig_def fake_simps)
  from t c ceq g bad show ?thesis by simp
qed

text \<open>
  C5. For every configuration, the absent one included, the authentication request
  carries the header
  \<^verbatim>\<open>MediaBrowser Client="..", Device="..", DeviceId="..", Version=".."\<close>
  in which each of the four values is the default (\<open>Terraform\<close>, \<open>Terraform Provider\<close>,
  \<open>terraform-provider-jellyfin\<close>, \<open>1.0.0\<close>) when the configuration is absent or its
  field is empty, and the field's value otherwise, each independently of the others.
\<close>

theorem auth_header_defaults:
  assumes "json_Marshal env \<lparr>Username = u, Pw = p\<rparr> = Inr body"
    and "http_NewRequest env MethodPost (TrimSuffix e ''/'' @ ''/Users/AuthenticateByName'') = None"
  shows "map Authorization (requests n (snd (NewClientWithAuthAndConfig env e u p cfg n))) =
     [''MediaBrowser Client=\"''
        @ (case cfg of None \<Rightarrow> ''Terraform''
           | Some x \<Rightarrow> if ClientName x = [] then ''Terraform'' else ClientName x)
        @ ''\", Device=\"''
        @ (case cfg of None \<Rightarrow> ''Terraform Provider''
           | Some x \<Rightarrow> if DeviceName x = [] then ''Terraform Provider'' else DeviceName x)
        @ ''\", DeviceId=\"''
        @ (case cfg of None \<Rightarrow> ''terraform-provider-jellyfin''
           | Some x \<Rightarrow> if DeviceID x = [] then ''terraform-provider-jellyfin'' else DeviceID x)
        @ ''\", Version=\"''
        @ (case cfg of None \<Rightarrow> ''1.0.0''
           | Some x \<Rightarrow> if ClientVersion x = [] then ''1.0.0'' else ClientVersion x)
        @ ''\"'']"
  using assms
  by (simp add: requests_NewClientWithAuthAndConfig auth_header_def clientName_of_def
        deviceName_of_def deviceID_of_def clientVersion_of_def DefaultClientName_def
        DefaultDeviceName_def DefaultDeviceID_def DefaultClientVersion_def
      split: option.splits)

theorem auth_header_defaults_witness:
  "map Authorization (requests net0 (snd (NewClientWithAuthAndConfig (fake_env [] [] 200 200)
      ''http://localhost:8096'' ''user'' ''pass''
      (Some \<lparr>Endpoint = [], ClientName = ''PartialClient'', DeviceName = [], DeviceID = [],
             ClientVersion = ''2.0.0''\<rparr>) net0)))
     = [''MediaBrowser Client=\"PartialClient\", Device=\"Terraform Provider\", DeviceId=\"terraform-provider-jellyfin\", Version=\"2.0.0\"''] \<and>
   map Authorization (requests net0 (snd (NewClientWithAuthAndConfig (fake_env [] [] 200 200)
      ''http://localhost:8096'' ''user'' ''pass'' None net0)))
     = [''MediaBrowser Client=\"Terraform\", Device=\"Terraform Provider\", DeviceId=\"terraform-provider-jellyfin\", Version=\"1.0.0\"'']"
proof -
  let ?env = "fake_env [] [] 200 200 :: nat env"
  have a: "json_Marshal ?env \<lparr>Username = ''user'', Pw = ''pass''\<rparr> = Inr ''user:pass''"
    by (simp add: fake_env_def)
  have b: "http_NewRequest ?env MethodPost
             (TrimSuffix ''http://localhost:8096'' ''/'' @ ''/Users/AuthenticateByName'') = None"
    by (simp add: fake_env_def)
  from auth_header_defaults [OF a b, of net0
         "Some \<lparr>Endpoint = [], ClientName = ''PartialClient'', DeviceName = [], DeviceID = [],
                ClientVersion = ''2.0.0''\<rparr>"]
       auth_header_defaults [OF a b, of net0 None]
  show ?thesis by simp
qed

text \<open>
  C6. Given the response to its request, \<open>CreateKey\<close> and \<open>DeleteKey\<close> return no error
  exactly when the status is 200 or 204; for every other status they return the error
  \<open>API request failed with status <code>: <body>\<close>, which holds the status code in
  decimal (\<open>decimal_value_digits\<close>) and the text of the response body. \<open>GetKeys\<close>
  returns the same error for every status other than 200.
\<close>

theorem status_decides_success:
  "(\<forall>resp n'. doRequest env c MethodPost (''/Auth/Keys?app='' @ QueryEscape a) n = (Inr resp, n')
      \<longrightarrow> fst (CreateKey env c a n) =
            (if StatusCode resp = 200 \<or> StatusCode resp = 204 then None
             else Some (''API request failed with status '' @ fmt_d (StatusCode resp)
                        @ '': '' @ Body resp))) \<and>
   (\<forall>resp n'. doRequest env c MethodDelete (''/Auth/Keys/'' @ PathEscape t) n = (Inr resp, n')
      \<longrightarrow> fst (DeleteKey env c t n) =
            (if StatusCode resp = 200 \<or> StatusCode resp = 204 then None
             else Some (''API request failed with status '' @ fmt_d (StatusCode resp)
                        @ '': '' @ Body resp))) \<and>
   (\<forall>resp n'. doRequest env c MethodGet ''/Auth/Keys'' n = (Inr resp, n') \<and> StatusCode resp \<noteq> 200
      \<longrightarrow> fst (GetKeys env c n) =
            Inl (''API request failed with status '' @ fmt_d (StatusCode resp)
                 @ '': '' @ Body resp))"
  by (simp add: CreateKey_def DeleteKey_def GetKeys_def status_error_def Let_def)

theorem status_decides_success_witness:
  "fst (CreateKey (fake_env [] [] 200 204) client0 ''My New App'' net0) = None \<and>
   fst (DeleteKey (fake_env [] [] 200 200) client0 ''token-1'' net0) = None \<and>
   fst (CreateKey (fake_env [] [] 200 500) client0 ''My New App'' net0)
     = Some ''API request failed with status 500: body'' \<and>
   fst (DeleteKey (fake_env [] [] 200 201) client0 ''token-1'' net0)
     = Some ''API request failed with status 201: body'' \<and>
   fst (GetKeys (fake_env [] [] 204 204) client0 net0)
     = Inl ''API request failed with status 204: before''"
proof -
  have p: "\<And>st. doRequest (fake_env [] [] 200 st) client0 MethodPost
             (''/Auth/Keys?app='' @ QueryEscape ''My New App'') net0
           = (Inr \<lparr>StatusCode = st, Body = ''body''\<rparr>,
              snd (doRequest (fake_env [] [] 200 st) client0 MethodPost
                (''/Auth/Keys?app='' @ QueryEscape ''My New App'') net0))"
    by (simp add: fake_env_def doRequest_def Do_def authorized_request_def)
  have d: "\<And>st. doRequest (fake_env [] [] 200 st) client0 MethodDelete
             (''/Auth/Keys/'' @ PathEscape ''token-1'') net0
           = (Inr \<lparr>StatusCode = st, Body = ''body''\<rparr>,
              snd (doRequest (fake_env [] [] 200 st) client0 MethodDelete
                (''/Auth/Keys/'' @ PathEscape ''token-1'') net0))"
    by (simp add: fake_env_def doRequest_def Do_def authorized_request_def)
  have g: "doRequest (fake_env [] [] 204 204) client0 MethodGet ''/Auth/Keys'' net0
           = (Inr \<lparr>StatusCode = 204, Body = ''before''\<rparr>,
              snd (doRequest (fake_env [] [] 204 204) client0 MethodGet ''/Auth/Keys'' net0))
           \<and> StatusCode \<lparr>StatusCode = 204, Body = ''before''\<rparr> \<noteq> 200"
    by (simp add: fake_env_def doRequest_def Do_def net0_def authorized_request_def)
  note t1 = status_decides_success [where env = "fake_env [] [] 200 204" and c = client0
      and n = net0 and a = "''My New App''", THEN conjunct1, THEN spec, THEN spec, THEN mp, OF p]
  note t2 = status_decides_success [where env = "fake_env [] [] 200 200" and c = client0
      and n = net0 and t = "''token-1''", THEN conjunct2, THEN conjunct1, THEN spec, THEN spec,
      THEN mp, OF d]
  note t3 = status_decides_success [where env = "fake_env [] [] 200 500" and c = client0
      and n = net0 and a = "''My New App''", THEN conjunct1, THEN spec, THEN spec, THEN mp, OF p]
  note t4 = status_decides_success [where env = "fake_env [] [] 200 201" and c = client0
      and n = net0 and t = "''token-1''", THEN conjunct2, THEN conjunct1, THEN spec, THEN spec,
      THEN mp, OF d]
  note t5 = status_decides_success [where env = "fake_env [] [] 204 204" and c = client0
      and n = net0, THEN conjunct2, THEN conjunct2, THEN spec, THEN spec, THEN mp, OF g]
  from t1 t2 t3 t4 t5 show ?thesis by (simp add: fmt_d_def)
qed

text \<open>
  C7. \<open>CreateKey\<close> places \<open>url.QueryEscape(appName)\<close> after \<open>/Auth/Keys?app=\<close>. For every
  application name, query unescaping the escaped text gives the name back, and the
  escaped text holds none of the characters that delimit a query parameter
  (\<open>&\<close>, \<open>=\<close>, \<open>;\<close>, \<open>#\<close>); \<open>My App & Test\<close> is sent as \<open>My+App+%26+Test\<close>.
  \<open>DeleteKey\<close> places \<open>url.PathEscape(accessToken)\<close> after \<open>/Auth/Keys/\<close>. For every
  token, the escaped text holds no slash (nor \<open>?\<close> or \<open>#\<close>), so it is one path segment,
  and path unescaping gives the token back; \<open>token/with/slashes\<close> is sent as
  \<open>token%2Fwith%2Fslashes\<close>.
\<close>

theorem percent_encoding_round_trips:
  "QueryUnescape (QueryEscape a) = Some a \<and>
   CHR ''&'' \<notin> set (QueryEscape a) \<and> CHR ''='' \<notin> set (QueryEscape a) \<and>
   CHR '';'' \<notin> set (QueryEscape a) \<and> CHR ''#'' \<notin> set (QueryEscape a) \<and>
   map URL (requests n (snd (CreateKey env c a n))) =
     (if http_NewRequest env MethodPost (endpoint c @ ''/Auth/Keys?app='' @ QueryEscape a) = None
      then [endpoint c @ ''/Auth/Keys?app='' @ QueryEscape a] else []) \<and>
   QueryEscape ''My App & Test'' = ''My+App+%26+Test'' \<and>
   PathUnescape (PathEscape t) = Some t \<and>
   CHR ''/'' \<notin> set (PathEscape t) \<and> CHR ''?'' \<notin> set (PathEscape t) \<and>
   CHR ''#'' \<notin> set (PathEscape t) \<and>
   map URL (requests n (snd (DeleteKey env c t n))) =
     (if http_NewRequest env MethodDelete (endpoint c @ ''/Auth/Keys/'' @ PathEscape t) = None
      then [endpoint c @ ''/Auth/Keys/'' @ PathEscape t] else []) \<and>
   PathEscape ''token/with/slashes'' = ''token%2Fwith%2Fslashes''"
proof -
  have 1: "QueryUnescape (QueryEscape a) = Some a"
    by (simp add: QueryUnescape_def QueryEscape_def unescape_escape)
  have 2: "CHR ''&'' \<notin> set (QueryEscape a)" "CHR ''='' \<notin> set (QueryEscape a)"
    "CHR '';'' \<notin> set (QueryEscape a)" "CHR ''#'' \<notin> set (QueryEscape a)"
    by (rule QueryEscape_no_separator, simp)+
  have 3: "map URL (requests n (snd (CreateKey env c a n))) =
     (if http_NewRequest env MethodPost (endpoint c @ ''/Auth/Keys?app='' @ QueryEscape a) = None
      then [endpoint c @ ''/Auth/Keys?app='' @ QueryEscape a] else [])"
    by (simp add: requests_CreateKey authorized_request_def)
  have 4: "QueryEscape ''My App & Test'' = ''My+App+%26+Test''"
    by (simp add: QueryEscape_def escape_byte_def shouldEscape_def upperhex_def)
  have 5: "PathUnescape (PathEscape t) = Some t"
    by (simp add: PathUnescape_def PathEscape_def unescape_escape)
  have 6: "CHR ''/'' \<notin> set (PathEscape t)" "CHR ''?'' \<notin> set (PathEscape t)"
    "CHR ''#'' \<notin> set (PathEscape t)"
    by (rule PathEscape_no_separator, simp)+
  have 7: "map URL (requests n (snd (DeleteKey env c t n))) =
     (if http_NewRequest env MethodDelete (endpoint c @ ''/Auth/Keys/'' @ PathEscape t) = None
      then [endpoint c @ ''/Auth/Keys/'' @ PathEscape t] else [])"
    by (simp add: requests_DeleteKey authorized_request_def)
  have 8: "PathEscape ''token/with/slashes'' = ''token%2Fwith%2Fslashes''"
    by (simp add: PathEscape_def escape_byte_def shouldEscape_def upperhex_def)
  from 1 2 3 4 5 6 7 8 show ?thesis by (intro conjI)
qed

theorem percent_encoding_round_trips_witness:
  "map URL (requests net0 (snd (CreateKey (fake_env [] [] 200 204) client0 ''My App & Test'' net0)))
     = [''http://localhost:8096/Auth/Keys?app=My+App+%26+Test''] \<and>
   QueryUnescape ''My+App+%26+Test'' = Some ''My App & Test'' \<and>
   map URL (requests net0 (snd (DeleteKey (fake_env [] [] 200 204) client0
       ''token/with/slashes'' net0)))
     = [''http://localhost:8096/Auth/Keys/token%2Fwith%2Fslashes''] \<and>
   PathUnescape ''token%2Fwith%2Fslashes'' = Some ''token/with/slashes'' \<and>
   CHR ''/'' \<notin> set ''token%2Fwith%2Fslashes''"
proof -
  note t = percent_encoding_round_trips [where a = "''My App & Test''"
      and t = "''token/with/slashes''" and env = "fake_env [] [] 200 204" and c = client0
      and n = net0]
  have q: "QueryEscape ''My App & Test'' = ''My+App+%26+Test''"
    using t by (elim conjE)
  have p: "PathEscape ''token/with/slashes'' = ''token%2Fwith%2Fslashes''"
    using t by (elim conjE)
  have e: "endpoint client0 = ''http://localhost:8096''"
    by (simp add: client0_def NewClient_def TrimSuffix_def HasSuffix_def)
  have nr: "\<And>m u. http_NewRequest (fake_env [] [] 200 204) m u = None"
    by (simp add: fake_env_def)
  from t show ?thesis
    unfolding q p e nr by simp
qed

text \<open>
  C8. As stated, the claim fails: a read that supplies both the application name and
  the access token violates "exactly one" and yet does not fail. With the keys
  \<open>App One\<close>/\<open>token-1\<close> and \<open>App Two\<close>/\<open>token-2\<close> on the server, a read for
  \<open>app_name = App One\<close>, \<open>access_token = token-2\<close> reports no error and returns the key
  of the token.
\<close>

theorem DataSource_Read_both_supplied_counterexample:
  "fst (DataSource_Read (fake_env [key1, key2] [] 200 204) client0
          (model_with (StringValue ''App One'') (StringValue ''token-2'')) resp_empty net0)
     = \<lparr>Diagnostics = [],
        State = Some \<lparr>m_ID = StringValue ''token-2'', m_AppName = StringValue ''App Two'',
                      m_AccessToken = StringValue ''token-2'',
                      m_DateCreated = StringValue ''2024-01-02T00:00:00Z''\<rparr>\<rparr>"
  by (simp add: DataSource_Read_def DataSource_Read_result_def fake_simps)

text \<open>
  C8, amended. At least one of application name and access token must be supplied. A
  read whose configuration is read without error fails with the attribute error
  \<open>Missing Required Attribute\<close> exactly when neither is supplied (each is null or
  unknown), and then sends no request. Otherwise it looks the key up by the access
  token when that is supplied, also when the application name is supplied as well, and
  by the application name when only that is supplied.
\<close>

theorem DataSource_Read_lookup:
  assumes "\<not> HasError (Append (Diagnostics resp0) (fst config))"
  shows "DataSource_Read env c config resp0 n =
     (case m_AccessToken (snd config) of
        StringValue t \<Rightarrow>
          DataSource_Read_result (resp0\<lparr>Diagnostics := Append (Diagnostics resp0) (fst config)\<rparr>)
            (snd config) (GetKeyByAccessToken env c t n)
      | _ \<Rightarrow>
          (case m_AppName (snd config) of
             StringValue a \<Rightarrow>
               DataSource_Read_result
                 (resp0\<lparr>Diagnostics := Append (Diagnostics resp0) (fst config)\<rparr>)
                 (snd config) (FindKeyByAppName env c a n)
           | _ \<Rightarrow>
               (resp_AddError (resp0\<lparr>Diagnostics := Append (Diagnostics resp0) (fst config)\<rparr>)
                  ''Missing Required Attribute''
                  ''Either 'app_name' or 'access_token' must be provided to look up an API key.'',
                n))) \<and>
   ((\<lparr>Severity = SeverityError, Summary = ''Missing Required Attribute'',
      Detail = ''Either 'app_name' or 'access_token' must be provided to look up an API key.''\<rparr>
       \<in> set (Diagnostics (fst (DataSource_Read env c config resp0 n))))
     = ((m_AppName (snd config) = Null \<or> m_AppName (snd config) = Unknown) \<and>
        (m_AccessToken (snd config) = Null \<or> m_AccessToken (snd config) = Unknown)))"
proof -
  let ?resp = "resp0\<lparr>Diagnostics := Append (Diagnostics resp0) (fst config)\<rparr>"
  from assms have ok: "\<not> HasError (Diagnostics ?resp)" by simp
  have eq: "DataSource_Read env c config resp0 n =
     (case m_AccessToken (snd config) of
        StringValue t \<Rightarrow> DataSource_Read_result ?resp (snd config) (GetKeyByAccessToken env c t n)
      | _ \<Rightarrow>
          (case m_AppName (snd config) of
             StringValue a \<Rightarrow>
               DataSource_Read_result ?resp (snd config) (FindKeyByAppName env c a n)
           | _ \<Rightarrow>
               (resp_AddError ?resp ''Missing Required Attribute''
                  ''Either 'app_name' or 'access_token' must be provided to look up an API key.'',
                n)))"
    using assms
    by (simp add: DataSource_Read_def Let_def IsNull_def IsUnknown_def ValueString_def
        split: types_String.splits)
  note na = DataSource_Read_result_no_attribute_error [OF ok]
  have iff: "(\<lparr>Severity = SeverityError, Summary = ''Missing Required Attribute'',
      Detail = ''Either 'app_name' or 'access_token' must be provided to look up an API key.''\<rparr>
       \<in> set (Diagnostics (fst (DataSource_Read env c config resp0 n))))
     = ((m_AppName (snd config) = Null \<or> m_AppName (snd config) = Unknown) \<and>
        (m_AccessToken (snd config) = Null \<or> m_AccessToken (snd config) = Unknown))"
    unfolding eq
    by (cases "m_AccessToken (snd config)"; cases "m_AppName (snd config)")
       (simp_all add: na Diagnostics_resp_AddError)
  from eq iff show ?thesis by (rule conjI)
qed


theorem DataSource_Read_lookup_witness:
  "fst (DataSource_Read (fake_env [key1, key2] [] 200 204) client0
          (model_with (StringValue ''App Two'') Null) resp_empty net0)
     = \<lparr>Diagnostics = [],
        State = Some \<lparr>m_ID = StringValue ''token-2'', m_AppName = StringValue ''App Two'',
                      m_AccessToken = StringValue ''token-2'',
                      m_DateCreated = StringValue ''2024-01-02T00:00:00Z''\<rparr>\<rparr> \<and>
   DataSource_Read (fake_env [key1, key2] [] 200 204) client0
          (model_with Null Unknown) resp_empty net0
     = (\<lparr>Diagnostics = [\<lparr>Severity = SeverityError, Summary = ''Missing Required Attribute'',
           Detail = ''Either 'app_name' or 'access_token' must be provided to look up an API key.''\<rparr>],
         State = None\<rparr>, net0)"
proof -
  have a: "\<not> HasError (Append (Diagnostics resp_empty)
              (fst (model_with (StringValue ''App Two'') Null)))"
    by (simp add: fake_simps)
  have b: "\<not> HasError (Append (Diagnostics resp_empty) (fst (model_with Null Unknown)))"
    by (simp add: fake_simps)
  from DataSource_Read_lookup [OF a, of "fake_env [key1, key2] [] 200 204" client0 net0]
       DataSource_Read_lookup [OF b, of "fake_env [key1, key2] [] 200 204" client0 net0]
  show ?thesis
    by (simp add: DataSource_Read_result_def fake_simps)
qed





end
